theory Spec2Isabelle
  imports Main "HOL-Library.AList"
begin

section \<open>Strings\<close>

text \<open>
  A Python \<open>str\<close> is a sequence of Unicode code points, and the text of a page can
  hold any of them. Text that the program takes from a document, stores in a record
  or writes to a file is therefore a list of code points, each a number. Dictionary
  keys, selector expressions and file names are \<open>str\<close> too, but the program only
  compares them and passes them on; they stay \<open>string\<close>, and \<open>lit\<close> gives the code
  points of such a literal.
\<close>

type_synonym str = "nat list"

definition lit :: "string \<Rightarrow> str" where
  "lit s = map of_char s"

text \<open>
  The class \<open>\d\<close> of the \<open>re\<close> module on a \<open>str\<close>: every character of the Unicode
  category Nd, which is the ten digits \<open>0\<close>..\<open>9\<close> and the decimal digits of the other
  scripts. The table is the one of Unicode 14.0, which CPython 3.11 carries; a later
  version of the database adds ranges for further scripts, all above U+0100.
\<close>

definition decimal_digit_ranges :: "(nat \<times> nat) list" where
  "decimal_digit_ranges =
     [(0x30, 0x39), (0x660, 0x669), (0x6F0, 0x6F9), (0x7C0, 0x7C9), (0x966, 0x96F),
      (0x9E6, 0x9EF), (0xA66, 0xA6F), (0xAE6, 0xAEF), (0xB66, 0xB6F), (0xBE6, 0xBEF),
      (0xC66, 0xC6F), (0xCE6, 0xCEF), (0xD66, 0xD6F), (0xDE6, 0xDEF), (0xE50, 0xE59),
      (0xED0, 0xED9), (0xF20, 0xF29), (0x1040, 0x1049), (0x1090, 0x1099),
      (0x17E0, 0x17E9), (0x1810, 0x1819), (0x1946, 0x194F), (0x19D0, 0x19D9),
      (0x1A80, 0x1A89), (0x1A90, 0x1A99), (0x1B50, 0x1B59), (0x1BB0, 0x1BB9),
      (0x1C40, 0x1C49), (0x1C50, 0x1C59), (0xA620, 0xA629), (0xA8D0, 0xA8D9),
      (0xA900, 0xA909), (0xA9D0, 0xA9D9), (0xA9F0, 0xA9F9), (0xAA50, 0xAA59),
      (0xABF0, 0xABF9), (0xFF10, 0xFF19), (0x104A0, 0x104A9), (0x10D30, 0x10D39),
      (0x11066, 0x1106F), (0x110F0, 0x110F9), (0x11136, 0x1113F), (0x111D0, 0x111D9),
      (0x112F0, 0x112F9), (0x11450, 0x11459), (0x114D0, 0x114D9), (0x11650, 0x11659),
      (0x116C0, 0x116C9), (0x11730, 0x11739), (0x118E0, 0x118E9), (0x11950, 0x11959),
      (0x11C50, 0x11C59), (0x11D50, 0x11D59), (0x11DA0, 0x11DA9), (0x16A60, 0x16A69),
      (0x16AC0, 0x16AC9), (0x16B50, 0x16B59), (0x1D7CE, 0x1D7FF), (0x1E140, 0x1E149),
      (0x1E2F0, 0x1E2F9), (0x1E950, 0x1E959), (0x1FBF0, 0x1FBF9)]"

definition in_ranges :: "(nat \<times> nat) list \<Rightarrow> nat \<Rightarrow> bool" where
  "in_ranges rs c = list_ex (\<lambda>r. fst r \<le> c \<and> c \<le> snd r) rs"

definition is_decimal_digit :: "nat \<Rightarrow> bool" where
  "is_decimal_digit c = in_ranges decimal_digit_ranges c"

text \<open>\<open>str.isspace\<close>, on all of Unicode: twenty-nine code points.\<close>

definition whitespace_ranges :: "(nat \<times> nat) list" where
  "whitespace_ranges =
     [(0x09, 0x0D), (0x1C, 0x20), (0x85, 0x85), (0xA0, 0xA0), (0x1680, 0x1680),
      (0x2000, 0x200A), (0x2028, 0x2029), (0x202F, 0x202F), (0x205F, 0x205F),
      (0x3000, 0x3000)]"

definition py_isspace :: "nat \<Rightarrow> bool" where
  "py_isspace c = in_ranges whitespace_ranges c"

text \<open>\<open>s.strip()\<close>: whitespace is dropped at both ends, never inside.\<close>

definition strip :: "str \<Rightarrow> str" where
  "strip s = rev (dropWhile py_isspace (rev (dropWhile py_isspace s)))"

section \<open>Price normalisation: \<open>WebScraper._clean_price\<close>\<close>

text \<open>
  \<^verbatim>\<open>cleaned = re.sub(r'[^\d.,]', '', price_text)\<close>
  \<^verbatim>\<open>return cleaned.strip() if cleaned else 'N/A'\<close>
  The substitution deletes every character outside the class, which is a filter that
  keeps the characters inside it.
\<close>

definition price_char :: "nat \<Rightarrow> bool" where
  "price_char c = (is_decimal_digit c \<or> c = of_char CHR ''.'' \<or> c = of_char CHR '','')"

definition clean_price :: "str \<Rightarrow> str" where
  "clean_price price_text =
     (let cleaned = filter price_char price_text
      in if cleaned \<noteq> [] then strip cleaned else lit ''N/A'')"

text \<open>
  The rule as the specification words it: keep the decimal digits of Unicode, the
  full stop U+002E and the comma U+002C; delete the rest, then trim, then test the
  trimmed remainder for emptiness. The code tests before it trims.
\<close>

definition spec_char :: "nat \<Rightarrow> bool" where
  "spec_char c = (in_ranges decimal_digit_ranges c \<or> c = 0x2E \<or> c = 0x2C)"

definition normalize_spec :: "str \<Rightarrow> str" where
  "normalize_spec s =
     (let remainder = strip (filter spec_char s)
      in if remainder = [] then lit ''N/A'' else remainder)"

section \<open>Exceptions, dictionaries and the log\<close>

text \<open>
  The exceptions the modelled code can meet: a missing dictionary key, a fault of
  the query engine (an invalid selector expression), and a failed file operation.
  All of them derive from Python's \<open>Exception\<close>, so \<open>except Exception\<close> catches each.
\<close>

datatype exn = KeyError string | QueryError string | OSError string

text \<open>
  A \<open>dict\<close> with string keys and text values, in insertion order. \<open>d[k] = v\<close> is
  \<open>AList.update k v d\<close>: a new key goes to the end, an old key keeps its place.
\<close>

type_synonym dict = "(string \<times> str) list"

definition getitem :: "(string \<rightharpoonup> string) \<Rightarrow> string \<Rightarrow> exn + string" where
  "getitem d k = (case d k of None \<Rightarrow> Inl (KeyError k) | Some v \<Rightarrow> Inr v)"

definition dict_get :: "dict \<Rightarrow> string \<Rightarrow> str \<Rightarrow> str" where
  "dict_get d k dflt = (case map_of d k of None \<Rightarrow> dflt | Some v \<Rightarrow> v)"

text \<open>
  Every call of \<open>logger\<close> in the modelled code appends one entry: the level, and the
  message with the values its f-string formats.
\<close>

datatype level = DEBUG | INFO | WARNING | ERROR

datatype message =
    Found nat                     \<comment> \<open>\<open>Found {len(containers)} product(s)\<close>\<close>
  | Extracted nat str             \<comment> \<open>\<open>Extracted product {idx + 1}: {name}\<close>\<close>
  | ErrorExtracting nat exn       \<comment> \<open>\<open>Error extracting product {idx + 1}: {e}\<close>\<close>
  | SuccessfullyExtracted nat     \<comment> \<open>\<open>Successfully extracted {len(products)} product(s)\<close>\<close>
  | ErrorParsing exn              \<comment> \<open>\<open>Error parsing products: {e}\<close>\<close>
  | DataExported string           \<comment> \<open>\<open>Data exported successfully to {filename}\<close>\<close>
  | TotalExported nat             \<comment> \<open>\<open>Total products exported: {len(products)}\<close>\<close>
  | ErrorExporting exn            \<comment> \<open>\<open>Error exporting to CSV: {e}\<close>\<close>

type_synonym log = "(level \<times> message) list"

section \<open>The document query engine\<close>

text \<open>
  The parsed document and its selector engine belong to the markup library, not to this
  program, so they are a parameter of the model: \<open>select\<close> is \<open>soup.select(sel)\<close>, all
  matches in document order; \<open>select_one\<close> is \<open>container.select_one(sel)\<close>, the first
  match among the descendants or \<open>None\<close>; \<open>get_text\<close> is \<open>elem.get_text(strip=True)\<close>.
  Both queries may raise. An element is always truthy in Python, so \<open>if elem\<close> tests
  for \<open>None\<close> only.
\<close>

record ('doc, 'node) query_engine =
  select :: "'doc \<Rightarrow> string \<Rightarrow> exn + 'node list"
  select_one :: "'node \<Rightarrow> string \<Rightarrow> exn + 'node option"
  get_text :: "'node \<Rightarrow> str"

section \<open>The extractor: \<open>WebScraper\<close>\<close>

text \<open>
  The fields of a \<open>WebScraper\<close> instance. \<open>headers\<close> stands for the session, of which
  the constructor sets the headers only.
\<close>

record web_scraper =
  url :: string
  timeout :: int
  headers :: dict
  products :: "dict list"

text \<open>
  \<open>_extract_product\<close>: three fields in the order name, price, rating. Each field
  looks its selector up in \<open>selectors\<close>, queries the container, and stores the text of
  the match or \<open>N/A\<close>. The first exception ends the function.
\<close>

definition extract_product ::
  "('doc, 'node) query_engine \<Rightarrow> 'node \<Rightarrow> (string \<rightharpoonup> string) \<Rightarrow> exn + dict" where
  "extract_product api container selectors =
     (let product = [] in
      case getitem selectors ''name'' of Inl e \<Rightarrow> Inl e | Inr name_sel \<Rightarrow>
      (case select_one api container name_sel of Inl e \<Rightarrow> Inl e | Inr name_elem \<Rightarrow>
      (let product = AList.update ''name''
             (case name_elem of Some el \<Rightarrow> get_text api el | None \<Rightarrow> lit ''N/A'')
             product in
       case getitem selectors ''price'' of Inl e \<Rightarrow> Inl e | Inr price_sel \<Rightarrow>
      (case select_one api container price_sel of Inl e \<Rightarrow> Inl e | Inr price_elem \<Rightarrow>
      (let product = AList.update ''price''
             (case price_elem of Some el \<Rightarrow> clean_price (get_text api el)
              | None \<Rightarrow> lit ''N/A'')
             product in
       case getitem selectors ''rating'' of Inl e \<Rightarrow> Inl e | Inr rating_sel \<Rightarrow>
      (case select_one api container rating_sel of Inl e \<Rightarrow> Inl e | Inr rating_elem \<Rightarrow>
      (let product = AList.update ''rating''
             (case rating_elem of Some el \<Rightarrow> get_text api el | None \<Rightarrow> lit ''N/A'')
             product in
       Inr product)))))))"

text \<open>
  The loop of \<open>parse_products\<close> over \<open>enumerate(containers)\<close>, from index \<open>idx\<close> on:
  \<open>acc\<close> is the list \<open>products\<close> built so far and \<open>lg\<close> the log so far. A container
  whose extraction raises is logged as a warning and skipped; an empty dictionary is
  falsy and would be skipped silently.
\<close>

fun extract_loop ::
  "('doc, 'node) query_engine \<Rightarrow> (string \<rightharpoonup> string) \<Rightarrow> nat \<Rightarrow> 'node list \<Rightarrow>
   dict list \<Rightarrow> log \<Rightarrow> dict list \<times> log" where
  "extract_loop api selectors idx [] acc lg = (acc, lg)"
| "extract_loop api selectors idx (container # rest) acc lg =
     (case extract_product api container selectors of
        Inr product \<Rightarrow>
          if product \<noteq> [] then
            extract_loop api selectors (idx + 1) rest (acc @ [product])
              (lg @ [(DEBUG, Extracted (idx + 1) (dict_get product ''name'' (lit ''N/A'')))])
          else extract_loop api selectors (idx + 1) rest acc lg
      | Inl e \<Rightarrow>
          extract_loop api selectors (idx + 1) rest acc
            (lg @ [(WARNING, ErrorExtracting (idx + 1) e)]))"

text \<open>
  \<open>parse_products\<close> returns the list of records or raises, leaves the instance in a
  new state, and emits log entries. An exception of the container query (or of the
  lookup of its selector) is logged as an error and raised again; \<open>self.products\<close> is
  assigned only on the way to a normal return.
\<close>

definition parse_products ::
  "('doc, 'node) query_engine \<Rightarrow> web_scraper \<Rightarrow> 'doc \<Rightarrow> (string \<rightharpoonup> string) \<Rightarrow>
   (exn + dict list) \<times> web_scraper \<times> log" where
  "parse_products api self soup selectors =
     (case getitem selectors ''container'' of
        Inl e \<Rightarrow> (Inl e, self, [(ERROR, ErrorParsing e)])
      | Inr container_sel \<Rightarrow>
     (case select api soup container_sel of
        Inl e \<Rightarrow> (Inl e, self, [(ERROR, ErrorParsing e)])
      | Inr containers \<Rightarrow>
          (case extract_loop api selectors 0 containers []
                  [(INFO, Found (length containers))] of
             (prods, lg) \<Rightarrow>
               (Inr prods, self\<lparr>products := prods\<rparr>,
                lg @ [(INFO, SuccessfullyExtracted (length prods))]))))"

text \<open>\<open>get_products\<close> reads the field that \<open>parse_products\<close> assigned.\<close>

definition get_products :: "web_scraper \<Rightarrow> dict list" where
  "get_products self = products self"

text \<open>
  What the loop is meant to collect, stated without the loop: the records of the
  containers whose extraction returns, in the order of the containers.
\<close>

definition extracted ::
  "('doc, 'node) query_engine \<Rightarrow> (string \<rightharpoonup> string) \<Rightarrow> 'node list \<Rightarrow> dict list" where
  "extracted api selectors containers =
     map projr (filter (\<lambda>r. \<not> isl r) (map (\<lambda>c. extract_product api c selectors) containers))"

section \<open>The exporter: \<open>CSVExporter\<close>\<close>

text \<open>
  The table library is not part of this program either. The model keeps what the three
  calls of \<open>export\<close> need. \<open>pd.DataFrame(products)\<close> on a list of dictionaries has one
  row per dictionary and one column per key, the keys in the order of their first
  appearance; a key that a dictionary lacks is a missing cell. An empty list gives a
  frame with no column and no row.
\<close>

record data_frame =
  columns :: "string list"
  rows :: "(string \<rightharpoonup> str) list"

definition DataFrame :: "dict list \<Rightarrow> data_frame" where
  "DataFrame data =
     \<lparr>columns = rev (remdups (rev (concat (map (map fst) data)))),
      rows = map map_of data\<rparr>"

text \<open>\<open>df[cols]\<close> for a list \<open>cols\<close> of columns that the frame has.\<close>

definition take_columns :: "data_frame \<Rightarrow> string list \<Rightarrow> data_frame" where
  "take_columns df cols = \<lparr>columns = cols, rows = map (\<lambda>r. r |` set cols) (rows df)\<rparr>"

text \<open>
  \<open>df.to_csv(filename, index=False)\<close> hands the header and then every row to a
  \<open>csv.writer\<close> with the comma as delimiter, minimal quoting and the line terminator
  of the platform. A field is quoted when it holds the delimiter, the quote character,
  a carriage return, a line feed or a character of the line terminator; a quote inside
  is doubled. A row that is one empty field is written as two quotes, a row with no
  field as the bare line terminator. A missing cell is written as the empty field.
\<close>

definition needs_quoting :: "str \<Rightarrow> nat \<Rightarrow> bool" where
  "needs_quoting lineterminator c =
     (c = of_char CHR '','' \<or> c = 0x22 \<or> c = 0x0D \<or> c = 0x0A \<or> c \<in> set lineterminator)"

definition csv_field :: "str \<Rightarrow> str \<Rightarrow> str" where
  "csv_field lineterminator f =
     (if list_ex (needs_quoting lineterminator) f
      then [0x22] @ concat (map (\<lambda>c. if c = 0x22 then [0x22, 0x22] else [c]) f) @ [0x22]
      else f)"

fun join :: "str \<Rightarrow> str list \<Rightarrow> str" where
  "join sep [] = []"
| "join sep [x] = x"
| "join sep (x # y # ys) = x @ sep @ join sep (y # ys)"

definition writerow :: "str \<Rightarrow> str list \<Rightarrow> str" where
  "writerow lineterminator row =
     (if row = [[]] then [0x22, 0x22]
      else join (lit '','') (map (csv_field lineterminator) row)) @ lineterminator"

definition to_csv :: "str \<Rightarrow> data_frame \<Rightarrow> str" where
  "to_csv lineterminator df =
     concat (map (writerow lineterminator)
       (map lit (columns df) #
        map (\<lambda>r. map (\<lambda>col. case r col of None \<Rightarrow> [] | Some v \<Rightarrow> v) (columns df)) (rows df)))"

text \<open>
  The file system: the text of every file, and which paths can be created or
  overwritten. Writing to any other path raises.
\<close>

record filesystem =
  writable :: "string \<Rightarrow> bool"
  files :: "string \<rightharpoonup> str"

definition write_file :: "filesystem \<Rightarrow> string \<Rightarrow> str \<Rightarrow> exn + filesystem" where
  "write_file fs path content =
     (if writable fs path then Inr (fs\<lparr>files := (files fs)(path \<mapsto> content)\<rparr>)
      else Inl (OSError path))"

text \<open>
  \<open>CSVExporter.export\<close>. \<open>timestamp\<close> is \<open>datetime.now().strftime('%Y%m%d_%H%M%S')\<close> and
  \<open>linesep\<close> is \<open>os.linesep\<close>; \<open>filename\<close> is \<open>None\<close> by default, and \<open>None\<close> and the
  empty string are both falsy. An exception is logged as an error and raised again.
\<close>

definition export ::
  "string \<Rightarrow> str \<Rightarrow> filesystem \<Rightarrow> dict list \<Rightarrow> string option \<Rightarrow>
   (exn + string) \<times> filesystem \<times> log" where
  "export timestamp linesep fs prods filename =
     (let filename =
            (case filename of
               None \<Rightarrow> ''products_'' @ timestamp @ ''.csv''
             | Some f \<Rightarrow> if f = [] then ''products_'' @ timestamp @ ''.csv'' else f);
          df = DataFrame prods;
          cols = [''name'', ''price'', ''rating''];
          df = take_columns df (filter (\<lambda>col. col \<in> set (columns df)) cols)
      in case write_file fs filename (to_csv linesep df) of
           Inl e \<Rightarrow> (Inl e, fs, [(ERROR, ErrorExporting e)])
         | Inr fs' \<Rightarrow>
             (Inr filename, fs',
              [(INFO, DataExported filename), (INFO, TotalExported (length prods))]))"

section \<open>A small query engine and sample data\<close>

text \<open>
  To evaluate the model on concrete documents: an element has a tag, a text of its own
  and children; a selector is a tag name and matches the descendants with that tag, in
  document order; the empty selector is invalid. An opaque element has a tag, so a
  selector can match it, but a query into it raises.
\<close>

datatype element = Element string str "element list" | Opaque string

fun tag_of :: "element \<Rightarrow> string" where
  "tag_of (Element t x cs) = t"
| "tag_of (Opaque t) = t"

fun text_of :: "element \<Rightarrow> str" where
  "text_of (Element t x cs) = x"
| "text_of (Opaque t) = []"

fun descendants :: "element \<Rightarrow> element list" where
  "descendants (Element t x cs) = concat (map (\<lambda>c. c # descendants c) cs)"
| "descendants (Opaque t) = []"

fun is_opaque :: "element \<Rightarrow> bool" where
  "is_opaque (Element t x cs) = False"
| "is_opaque (Opaque t) = True"

definition by_tag :: "(element, element) query_engine" where
  "by_tag =
     \<lparr>select = (\<lambda>doc sel. if sel = [] \<or> is_opaque doc then Inl (QueryError sel)
                           else Inr (filter (\<lambda>e. tag_of e = sel) (descendants doc))),
      select_one = (\<lambda>node sel. if sel = [] \<or> is_opaque node then Inl (QueryError sel)
                                else Inr (find (\<lambda>e. tag_of e = sel) (descendants node))),
      get_text = (\<lambda>e. strip (text_of e))\<rparr>"

definition book :: "str \<Rightarrow> str \<Rightarrow> str \<Rightarrow> element" where
  "book n p r =
     Element ''article'' [] [Element ''a'' n [], Element ''p'' p [], Element ''i'' r []]"

definition attic :: element where
  "attic = book (lit '' A Light in the Attic '') (0xA3 # lit ''51.77'') (lit ''Three'')"

definition untitled :: element where
  "untitled = Element ''article'' [] [Element ''p'' (lit ''Free'') []]"

definition velvet :: element where
  "velvet = book (lit ''Tipping the Velvet'') (0xA3 # lit ''53.74'') (lit ''One'')"

definition page :: element where
  "page = Element ''html'' [] [attic, untitled, velvet]"

definition page_with_opaque :: element where
  "page_with_opaque = Element ''html'' [] [attic, Opaque ''article'', untitled, velvet]"

definition empty_page :: element where
  "empty_page = Element ''html'' [] [Element ''h1'' (lit ''Nothing here'') []]"

definition book_selectors :: "string \<rightharpoonup> string" where
  "book_selectors =
     [''container'' \<mapsto> ''article'', ''name'' \<mapsto> ''a'', ''price'' \<mapsto> ''p'', ''rating'' \<mapsto> ''i'']"

definition new_scraper :: web_scraper where
  "new_scraper =
     \<lparr>url = ''https://books.toscrape.com/'', timeout = 10,
      headers = [(''User-Agent'', lit ''Mozilla/5.0'')], products = []\<rparr>"

definition attic_record :: dict where
  "attic_record =
     [(''name'', lit ''A Light in the Attic''), (''price'', lit ''51.77''),
      (''rating'', lit ''Three'')]"

definition untitled_record :: dict where
  "untitled_record =
     [(''name'', lit ''N/A''), (''price'', lit ''N/A''), (''rating'', lit ''N/A'')]"

definition velvet_record :: dict where
  "velvet_record =
     [(''name'', lit ''Tipping the Velvet''), (''price'', lit ''53.74''),
      (''rating'', lit ''One'')]"

text \<open>The same configuration with an invalid selector for the rating.\<close>

definition rating_broken :: "string \<rightharpoonup> string" where
  "rating_broken = book_selectors(''rating'' \<mapsto> [])"

definition disk :: filesystem where
  "disk = \<lparr>writable = (\<lambda>path. path = ''out.csv''), files = Map.empty\<rparr>"

section \<open>Properties of the price normalisation\<close>

lemmas class_defs =
  is_decimal_digit_def py_isspace_def in_ranges_def decimal_digit_ranges_def
  whitespace_ranges_def

lemma decimal_digit_not_space: "is_decimal_digit c \<Longrightarrow> \<not> py_isspace c"
  by (auto simp: class_defs)

lemma price_char_not_space: "price_char c \<Longrightarrow> \<not> py_isspace c"
  by (auto simp: price_char_def py_isspace_def in_ranges_def whitespace_ranges_def
      dest: decimal_digit_not_space)

lemma spec_char_eq: "spec_char = price_char"
  by (rule ext) (simp add: spec_char_def price_char_def is_decimal_digit_def)

lemma ascii_decimal_digit:
  "c < 0x660 \<Longrightarrow> is_decimal_digit c = (0x30 \<le> c \<and> c \<le> 0x39)"
  by (auto simp: class_defs)

lemma dropWhile_none: "\<forall>x \<in> set xs. \<not> P x \<Longrightarrow> dropWhile P xs = xs"
  by (cases xs) auto

lemma strip_no_space:
  assumes "\<forall>c \<in> set s. \<not> py_isspace c"
  shows "strip s = s"
proof -
  have at_front: "dropWhile py_isspace s = s"
    using assms by (rule dropWhile_none)
  have "\<forall>c \<in> set (rev s). \<not> py_isspace c"
    using assms by simp
  then have at_end: "dropWhile py_isspace (rev s) = rev s"
    by (rule dropWhile_none)
  show ?thesis
    by (simp add: strip_def at_front at_end)
qed

lemma strip_cleaned: "strip (filter price_char s) = filter price_char s"
  by (rule strip_no_space) (auto dest: price_char_not_space)

lemma clean_price_eq:
  "clean_price s = (if filter price_char s = [] then lit ''N/A'' else filter price_char s)"
  by (simp add: clean_price_def Let_def strip_cleaned)

lemmas price_char_eval = price_char_def is_decimal_digit_def in_ranges_def decimal_digit_ranges_def

lemma clean_price_NA: "clean_price (lit ''N/A'') = lit ''N/A''"
  by (simp add: clean_price_eq lit_def price_char_eval)

text \<open>
  Claim C2. Price normalisation deletes every character that is not a decimal digit,
  a full stop or a comma, trims what is left, and gives \<open>N/A\<close> when nothing is left:
  on every text, whatever its code points, the code computes the rule as the
  specification words it, and the result is the kept characters themselves when there
  are any. The decimal digits are those of Unicode, the class of the regular
  expression: the Arabic-Indic digits U+0661..U+0663 are kept like \<open>0\<close>..\<open>9\<close>. On the
  pound sign followed by \<open>51.77\<close> the result is \<open>51.77\<close>, on \<open>$1,234.56\<close> it is
  \<open>1,234.56\<close>, and on \<open>Free\<close> it is \<open>N/A\<close>.
\<close>

theorem clean_price_rule:
  "clean_price s = normalize_spec s
   \<and> clean_price s = (if filter price_char s = [] then lit ''N/A'' else filter price_char s)
   \<and> set (filter price_char s) =
       {c \<in> set s. is_decimal_digit c \<or> c = of_char CHR ''.'' \<or> c = of_char CHR '',''}
   \<and> clean_price (0xA3 # lit ''51.77'') = lit ''51.77''
   \<and> clean_price (lit ''$1,234.56'') = lit ''1,234.56''
   \<and> clean_price (lit ''Free'') = lit ''N/A''
   \<and> clean_price [0x661, 0x662, 0x663] = [0x661, 0x662, 0x663]"
proof -
  have spec: "clean_price s = normalize_spec s"
    by (simp add: clean_price_eq normalize_spec_def Let_def spec_char_eq strip_cleaned)
  have kept: "set (filter price_char s) =
       {c \<in> set s. is_decimal_digit c \<or> c = of_char CHR ''.'' \<or> c = of_char CHR '',''}"
    by (auto simp: price_char_def)
  have e1: "clean_price (0xA3 # lit ''51.77'') = lit ''51.77''"
    by (simp add: clean_price_eq lit_def price_char_eval)
  have e2: "clean_price (lit ''$1,234.56'') = lit ''1,234.56''"
    by (simp add: clean_price_eq lit_def price_char_eval)
  have e3: "clean_price (lit ''Free'') = lit ''N/A''"
    by (simp add: clean_price_eq lit_def price_char_eval)
  have e4: "clean_price [0x661, 0x662, 0x663] = [0x661, 0x662, 0x663]"
    by (simp add: clean_price_eq price_char_eval)
  from spec kept e1 e2 e3 e4 show ?thesis
    by (simp only: clean_price_eq [symmetric] simp_thms)
qed

text \<open>
  Claim C3. Price normalisation is idempotent: normalising the result of a
  normalisation changes nothing, for every input string.
\<close>

theorem clean_price_idempotent: "clean_price (clean_price s) = clean_price s"
proof (cases "filter price_char s = []")
  case True
  then have "clean_price s = lit ''N/A''"
    by (simp add: clean_price_eq)
  then show ?thesis
    by (simp add: clean_price_NA)
next
  case False
  then show ?thesis
    by (simp add: clean_price_eq)
qed

section \<open>The sample data, evaluated\<close>

lemmas sample_defs =
  by_tag_def book_def attic_def untitled_def velvet_def page_def page_with_opaque_def
  empty_page_def book_selectors_def new_scraper_def attic_record_def untitled_record_def
  velvet_record_def

lemmas evaluation_defs =
  extract_product_def getitem_def clean_price_eq price_char_eval lit_def
  strip_def py_isspace_def whitespace_ranges_def

lemma container_selector: "book_selectors ''container'' = Some ''article''"
  by (simp add: book_selectors_def)

lemma select_page: "select by_tag page ''article'' = Inr [attic, untitled, velvet]"
  by (simp add: sample_defs)

lemma select_empty_page: "select by_tag empty_page ''article'' = Inr []"
  by (simp add: sample_defs)

lemma select_page_with_opaque:
  "select by_tag page_with_opaque ''article'' = Inr ([attic] @ Opaque ''article'' # [untitled, velvet])"
  by (simp add: sample_defs)

lemma extract_attic: "extract_product by_tag attic book_selectors = Inr attic_record"
  by (simp add: sample_defs evaluation_defs)

lemma extract_untitled: "extract_product by_tag untitled book_selectors = Inr untitled_record"
  by (simp add: sample_defs evaluation_defs)

lemma extract_velvet: "extract_product by_tag velvet book_selectors = Inr velvet_record"
  by (simp add: sample_defs evaluation_defs)

lemma extract_opaque: "extract_product by_tag (Opaque ''article'') book_selectors = Inl (QueryError ''a'')"
  by (simp add: sample_defs extract_product_def getitem_def)

lemma container_selector_rb: "rating_broken ''container'' = Some ''article''"
  by (simp add: rating_broken_def book_selectors_def)

lemma rating_selector_rb: "rating_broken ''rating'' = Some []"
  by (simp add: rating_broken_def)

lemma select_one_invalid: "select_one by_tag attic [] = Inl (QueryError [])"
  by (simp add: by_tag_def)

lemma extract_rb:
  "extract_product by_tag attic rating_broken = Inl (QueryError [])"
  "extract_product by_tag untitled rating_broken = Inl (QueryError [])"
  "extract_product by_tag velvet rating_broken = Inl (QueryError [])"
  by (simp_all add: sample_defs rating_broken_def extract_product_def getitem_def)

section \<open>Properties of the extractor\<close>

subsection \<open>One container\<close>

lemma extract_product_keys:
  "extract_product api c selectors = Inr p \<Longrightarrow> map fst p = [''name'', ''price'', ''rating'']"
  by (auto simp: extract_product_def Let_def split: sum.splits)

lemma extract_product_nonempty: "extract_product api c selectors = Inr p \<Longrightarrow> p \<noteq> []"
  by (drule extract_product_keys) auto

lemma extract_product_sentinel:
  "extract_product api c selectors = Inr p \<Longrightarrow> k \<in> {''name'', ''price'', ''rating''} \<Longrightarrow>
   selectors k = Some s \<Longrightarrow> select_one api c s = Inr None \<Longrightarrow> map_of p k = Some (lit ''N/A'')"
  by (auto simp: extract_product_def getitem_def Let_def split: sum.splits option.splits)

lemma extract_product_field_error:
  "k \<in> {''name'', ''price'', ''rating''} \<Longrightarrow>
   selectors k = Some s \<Longrightarrow> select_one api c s = Inl e \<Longrightarrow> \<exists>e'. extract_product api c selectors = Inl e'"
  by (auto simp: extract_product_def getitem_def Let_def split: sum.splits option.splits)

subsection \<open>The loop\<close>

lemma extracted_Nil: "extracted api selectors [] = []"
  by (simp add: extracted_def)

lemma extracted_Cons:
  "extracted api selectors (c # cs) =
     (case extract_product api c selectors of
        Inr p \<Rightarrow> p # extracted api selectors cs
      | Inl e \<Rightarrow> extracted api selectors cs)"
  by (simp add: extracted_def split: sum.splits)

lemma extracted_append:
  "extracted api selectors (xs @ ys) = extracted api selectors xs @ extracted api selectors ys"
  by (simp add: extracted_def)

lemma set_extracted:
  "set (extracted api selectors containers) =
     {p. \<exists>c \<in> set containers. extract_product api c selectors = Inr p}"
  by (auto simp: extracted_def image_iff split: sum.splits) (metis sum.collapse(2) sum.disc(2) sum.sel(2))+

lemma extract_loop_records:
  "fst (extract_loop api selectors idx cs acc lg) = acc @ extracted api selectors cs"
proof (induction cs arbitrary: idx acc lg)
  case Nil
  show ?case by (simp add: extracted_Nil)
next
  case (Cons c cs)
  show ?case
  proof (cases "extract_product api c selectors")
    case (Inl e)
    then show ?thesis by (simp add: Cons.IH extracted_Cons)
  next
    case (Inr p)
    then have "p \<noteq> []" by (rule extract_product_nonempty)
    with Inr show ?thesis by (simp add: Cons.IH extracted_Cons)
  qed
qed

lemma extract_loop_log_grows:
  "set lg \<subseteq> set (snd (extract_loop api selectors idx cs acc lg))"
proof (induction cs arbitrary: idx acc lg)
  case Nil
  show ?case by simp
next
  case (Cons c cs)
  show ?case
  proof (cases "extract_product api c selectors")
    case (Inl e)
    have "set (lg @ [(WARNING, ErrorExtracting (idx + 1) e)])
          \<subseteq> set (snd (extract_loop api selectors (idx + 1) cs acc (lg @ [(WARNING, ErrorExtracting (idx + 1) e)])))"
      by (rule Cons.IH)
    with Inl show ?thesis by auto
  next
    case (Inr p)
    show ?thesis
    proof (cases "p = []")
      case True
      with Inr Cons.IH [of lg "idx + 1" acc] show ?thesis by simp
    next
      case False
      have "set (lg @ [(DEBUG, Extracted (idx + 1) (dict_get p ''name'' (lit ''N/A'')))])
          \<subseteq> set (snd (extract_loop api selectors (idx + 1) cs (acc @ [p])
                 (lg @ [(DEBUG, Extracted (idx + 1) (dict_get p ''name'' (lit ''N/A'')))])))"
        by (rule Cons.IH)
      with Inr False show ?thesis by auto
    qed
  qed
qed

lemma extract_loop_warns:
  assumes "extract_product api bad selectors = Inl e"
  shows "(WARNING, ErrorExtracting (idx + length before + 1) e)
         \<in> set (snd (extract_loop api selectors idx (before @ bad # after) acc lg))"
proof (induction before arbitrary: idx acc lg)
  case Nil
  have "set (lg @ [(WARNING, ErrorExtracting (idx + 1) e)])
        \<subseteq> set (snd (extract_loop api selectors (idx + 1) after acc (lg @ [(WARNING, ErrorExtracting (idx + 1) e)])))"
    by (rule extract_loop_log_grows)
  with assms show ?case by auto
next
  case (Cons c before)
  have step: "\<And>acc' lg'. (WARNING, ErrorExtracting (idx + length (c # before) + 1) e)
         \<in> set (snd (extract_loop api selectors (idx + 1) (before @ bad # after) acc' lg'))"
    using Cons.IH [of "idx + 1"] by simp
  show ?case
    by (cases "extract_product api c selectors") (use step in \<open>auto simp del: length_Cons\<close>)
qed

subsection \<open>The whole operation\<close>

lemma parse_products_result:
  assumes "selectors ''container'' = Some container_sel"
    and "select api soup container_sel = Inr containers"
  shows "fst (parse_products api self soup selectors) = Inr (extracted api selectors containers)"
proof -
  obtain prods lg where loop:
    "extract_loop api selectors 0 containers [] [(INFO, Found (length containers))] = (prods, lg)"
    by (cases "extract_loop api selectors 0 containers [] [(INFO, Found (length containers))]")
  have "prods = extracted api selectors containers"
    using extract_loop_records [of api selectors 0 containers "[]" "[(INFO, Found (length containers))]"] loop
    by simp
  with assms loop show ?thesis
    by (simp add: parse_products_def getitem_def)
qed

lemma parse_products_log:
  assumes "selectors ''container'' = Some container_sel"
    and "select api soup container_sel = Inr containers"
  shows "set (snd (extract_loop api selectors 0 containers [] [(INFO, Found (length containers))]))
         \<subseteq> set (snd (snd (parse_products api self soup selectors)))"
  using assms by (auto simp: parse_products_def getitem_def split: prod.splits)

lemma parse_products_self:
  "fst (snd (parse_products api self soup selectors)) =
     (case fst (parse_products api self soup selectors) of
        Inr prods \<Rightarrow> self\<lparr>products := prods\<rparr>
      | Inl e \<Rightarrow> self)"
  by (simp add: parse_products_def split: sum.splits prod.splits)

lemma parse_products_raises:
  "isl (fst (parse_products api self soup selectors)) =
     (case selectors ''container'' of None \<Rightarrow> True | Some sel \<Rightarrow> isl (select api soup sel))"
  by (simp add: parse_products_def getitem_def split: option.splits sum.splits prod.splits)

section \<open>Claims about the extractor\<close>

text \<open>
  Claim C4. For every document and selector configuration whose container selector
  matches no node, \<open>parse_products\<close> returns the empty sequence and does not raise.
\<close>

theorem parse_products_no_container:
  assumes "selectors ''container'' = Some container_sel"
    and "select api soup container_sel = Inr []"
  shows "fst (parse_products api self soup selectors) = Inr []"
  using assms by (simp add: parse_products_def getitem_def)

theorem parse_products_no_container_witness:
  "book_selectors ''container'' = Some ''article''
   \<and> select by_tag empty_page ''article'' = Inr []
   \<and> fst (parse_products by_tag new_scraper empty_page book_selectors) = Inr []"
  using parse_products_no_container [where selectors = book_selectors and api = by_tag
      and soup = empty_page and self = new_scraper, OF container_selector select_empty_page]
  by (simp add: container_selector select_empty_page)

text \<open>
  Claim C9. Extraction preserves document order: when the container selector matches
  the containers \<open>containers\<close>, in that order, the output is the sequence of their
  extraction results with the raised ones left out and nothing moved, whatever the
  containers hold.
\<close>

theorem parse_products_order:
  assumes "selectors ''container'' = Some container_sel"
    and "select api soup container_sel = Inr containers"
  shows "fst (parse_products api self soup selectors) =
           Inr (map projr (filter (\<lambda>r. \<not> isl r)
                  (map (\<lambda>c. extract_product api c selectors) containers)))"
  using parse_products_result [where selectors = selectors and api = api and soup = soup, OF assms]
  by (simp add: extracted_def)

theorem parse_products_order_witness:
  "select by_tag page ''article'' = Inr [attic, untitled, velvet]
   \<and> fst (parse_products by_tag new_scraper page book_selectors) =
       Inr [attic_record, untitled_record, velvet_record]"
  using parse_products_order [where selectors = book_selectors and api = by_tag
      and soup = page and self = new_scraper, OF container_selector select_page]
  by (simp add: select_page extract_attic extract_untitled extract_velvet)

text \<open>
  Claim C1. Every record that \<open>parse_products\<close> returns is the extraction result of a
  matched container and has exactly the keys \<open>name\<close>, \<open>price\<close>, \<open>rating\<close>, each once
  and each with a string value; every matched container whose extraction returns
  has its record in the output; and in that record a field whose selector matches
  no descendant of the container holds the sentinel \<open>N/A\<close>.
\<close>

theorem extract_record_shape:
  assumes "selectors ''container'' = Some container_sel"
    and "select api soup container_sel = Inr containers"
  shows "\<exists>ps. fst (parse_products api self soup selectors) = Inr ps
           \<and> (\<forall>p \<in> set ps. map fst p = [''name'', ''price'', ''rating'']
                 \<and> (\<exists>c \<in> set containers. extract_product api c selectors = Inr p))
           \<and> (\<forall>c \<in> set containers. \<forall>p. extract_product api c selectors = Inr p \<longrightarrow>
                 p \<in> set ps
                 \<and> (\<forall>k s. k \<in> {''name'', ''price'', ''rating''} \<and> selectors k = Some s
                            \<and> select_one api c s = Inr None \<longrightarrow> map_of p k = Some (lit ''N/A'')))"
proof -
  let ?ps = "extracted api selectors containers"
  have res: "fst (parse_products api self soup selectors) = Inr ?ps"
    by (rule parse_products_result [where selectors = selectors and api = api and soup = soup,
          OF assms])
  have shape: "\<forall>p \<in> set ?ps. map fst p = [''name'', ''price'', ''rating'']
                 \<and> (\<exists>c \<in> set containers. extract_product api c selectors = Inr p)"
    by (auto simp: set_extracted dest: extract_product_keys)
  have sentinel: "\<forall>c \<in> set containers. \<forall>p. extract_product api c selectors = Inr p \<longrightarrow>
                 p \<in> set ?ps
                 \<and> (\<forall>k s. k \<in> {''name'', ''price'', ''rating''} \<and> selectors k = Some s
                            \<and> select_one api c s = Inr None \<longrightarrow> map_of p k = Some (lit ''N/A''))"
  proof (intro ballI allI impI conjI)
    fix c p assume "c \<in> set containers" "extract_product api c selectors = Inr p"
    then show "p \<in> set ?ps" by (auto simp: set_extracted)
  next
    fix c p k s
    assume "extract_product api c selectors = Inr p"
      and "k \<in> {''name'', ''price'', ''rating''} \<and> selectors k = Some s
             \<and> select_one api c s = Inr None"
    then show "map_of p k = Some (lit ''N/A'')"
      using extract_product_sentinel [of api c selectors p k s] by blast
  qed
  from res shape sentinel show ?thesis by blast
qed

theorem extract_record_shape_witness:
  "fst (parse_products by_tag new_scraper page book_selectors) =
     Inr [attic_record, untitled_record, velvet_record]
   \<and> map fst attic_record = [''name'', ''price'', ''rating'']
   \<and> select_one by_tag untitled ''a'' = Inr None
   \<and> extract_product by_tag untitled book_selectors = Inr untitled_record
   \<and> map_of untitled_record ''name'' = Some (lit ''N/A'')"
proof -
  obtain ps where "fst (parse_products by_tag new_scraper page book_selectors) = Inr ps"
    and sentinel: "\<forall>c \<in> set [attic, untitled, velvet].
        \<forall>p. extract_product by_tag c book_selectors = Inr p \<longrightarrow>
          p \<in> set ps
          \<and> (\<forall>k s. k \<in> {''name'', ''price'', ''rating''} \<and> book_selectors k = Some s
                     \<and> select_one by_tag c s = Inr None \<longrightarrow> map_of p k = Some (lit ''N/A''))"
    using extract_record_shape [where selectors = book_selectors and api = by_tag
        and soup = page and self = new_scraper, OF container_selector select_page]
    by blast
  have none: "select_one by_tag untitled ''a'' = Inr None"
    by (simp add: sample_defs)
  have name_sel: "book_selectors ''name'' = Some ''a''"
    by (simp add: book_selectors_def)
  have na: "map_of untitled_record ''name'' = Some (lit ''N/A'')"
    using sentinel extract_untitled none name_sel by auto
  have all: "fst (parse_products by_tag new_scraper page book_selectors) =
     Inr [attic_record, untitled_record, velvet_record]"
    using parse_products_result [where selectors = book_selectors and api = by_tag
        and soup = page and self = new_scraper, OF container_selector select_page]
    by (simp add: extracted_def extract_attic extract_untitled extract_velvet)
  have keys: "map fst attic_record = [''name'', ''price'', ''rating'']"
    by (simp add: attic_record_def)
  from all keys none extract_untitled na show ?thesis by simp
qed

text \<open>
  Claim C5. When the extraction of one container raises, \<open>parse_products\<close> still
  returns: the output is the records of the containers before it followed by the
  records of the containers after it, which is the output of a run on a document
  where the failing container is absent, and a warning with the position of the
  container and the exception is in the log.
\<close>

theorem failing_container_skipped:
  assumes "selectors ''container'' = Some container_sel"
    and "select api soup container_sel = Inr (before @ bad # after)"
    and "select api soup' container_sel = Inr (before @ after)"
    and "extract_product api bad selectors = Inl e"
  shows "fst (parse_products api self soup selectors) =
           Inr (extracted api selectors before @ extracted api selectors after)
         \<and> fst (parse_products api self soup selectors) =
             fst (parse_products api self soup' selectors)
         \<and> (WARNING, ErrorExtracting (length before + 1) e)
             \<in> set (snd (snd (parse_products api self soup selectors)))"
proof -
  have with_bad: "fst (parse_products api self soup selectors) =
           Inr (extracted api selectors before @ extracted api selectors after)"
    using parse_products_result [where selectors = selectors and api = api and soup = soup
        and self = self, OF assms(1,2)] assms(4)
    by (simp add: extracted_append extracted_Cons)
  have without: "fst (parse_products api self soup' selectors) =
           Inr (extracted api selectors before @ extracted api selectors after)"
    using parse_products_result [where selectors = selectors and api = api and soup = soup'
        and self = self, OF assms(1,3)]
    by (simp add: extracted_append)
  have "(WARNING, ErrorExtracting (0 + length before + 1) e)
          \<in> set (snd (extract_loop api selectors 0 (before @ bad # after) []
                   [(INFO, Found (length (before @ bad # after)))]))"
    by (rule extract_loop_warns [OF assms(4)])
  then have warned: "(WARNING, ErrorExtracting (length before + 1) e)
             \<in> set (snd (snd (parse_products api self soup selectors)))"
    using parse_products_log [where selectors = selectors and api = api and soup = soup
        and self = self, OF assms(1,2)] by auto
  from with_bad without warned show ?thesis by simp
qed

theorem failing_container_skipped_witness:
  "extract_product by_tag (Opaque ''article'') book_selectors = Inl (QueryError ''a'')
   \<and> fst (parse_products by_tag new_scraper page_with_opaque book_selectors) =
       Inr [attic_record, untitled_record, velvet_record]
   \<and> fst (parse_products by_tag new_scraper page_with_opaque book_selectors) =
       fst (parse_products by_tag new_scraper page book_selectors)
   \<and> (WARNING, ErrorExtracting 2 (QueryError ''a''))
       \<in> set (snd (snd (parse_products by_tag new_scraper page_with_opaque book_selectors)))"
proof -
  have without: "select by_tag page ''article'' = Inr ([attic] @ [untitled, velvet])"
    by (simp add: select_page)
  show ?thesis
    using failing_container_skipped [where selectors = book_selectors and api = by_tag
        and soup = page_with_opaque and soup' = page and self = new_scraper,
        OF container_selector select_page_with_opaque without extract_opaque]
    by (auto simp: extract_opaque extracted_def extract_attic extract_untitled extract_velvet
        numeral_2_eq_2)
qed

text \<open>
  Against claim C6 as stated. With an invalid rating selector the query for the rating
  raises inside every container, and \<open>parse_products\<close> returns no record at all: no
  record carrying \<open>N/A\<close> as its rating is produced.
\<close>

theorem field_error_counterexample:
  "rating_broken ''rating'' = Some []
   \<and> select_one by_tag attic [] = Inl (QueryError [])
   \<and> fst (parse_products by_tag new_scraper page rating_broken) = Inr []"
  using parse_products_result [where selectors = rating_broken and api = by_tag
      and soup = page and self = new_scraper, OF container_selector_rb select_page]
  by (simp add: rating_selector_rb select_one_invalid extracted_def extract_rb)

lemma field_error_skips:
  assumes "selectors ''container'' = Some container_sel"
    and "select api soup container_sel = Inr (before @ c # after)"
    and "k \<in> {''name'', ''price'', ''rating''}"
    and "selectors k = Some s"
    and "select_one api c s = Inl e"
  shows "\<exists>e'. extract_product api c selectors = Inl e'
           \<and> fst (parse_products api self soup selectors) =
               Inr (extracted api selectors before @ extracted api selectors after)
           \<and> (WARNING, ErrorExtracting (length before + 1) e')
               \<in> set (snd (snd (parse_products api self soup selectors)))"
proof -
  obtain e' where raised: "extract_product api c selectors = Inl e'"
    using extract_product_field_error [where selectors = selectors and api = api,
        OF assms(3,4,5)]
    by blast
  have res: "fst (parse_products api self soup selectors) =
           Inr (extracted api selectors before @ extracted api selectors after)"
    using parse_products_result [where selectors = selectors and api = api and soup = soup
        and self = self, OF assms(1,2)] raised
    by (simp add: extracted_append extracted_Cons)
  have "(WARNING, ErrorExtracting (0 + length before + 1) e')
          \<in> set (snd (extract_loop api selectors 0 (before @ c # after) []
                   [(INFO, Found (length (before @ c # after)))]))"
    by (rule extract_loop_warns [OF raised])
  then have warned: "(WARNING, ErrorExtracting (length before + 1) e')
             \<in> set (snd (snd (parse_products api self soup selectors)))"
    using parse_products_log [where selectors = selectors and api = api and soup = soup
        and self = self, OF assms(1,2)] by auto
  from raised res warned show ?thesis by blast
qed

text \<open>
  Claim C6, amended. An exception raised while a field selector (name, price or
  rating) is evaluated inside one container is not turned into a missing match: it
  ends the extraction of that container, which is skipped with a warning and gives
  no record, while the records of the other containers are returned as usual.
  \<open>parse_products\<close> itself raises only when the container selector cannot be
  evaluated: its key is missing or the container query raises.
\<close>

theorem field_error_skips_container:
  "isl (fst (parse_products api self soup selectors)) =
     (case selectors ''container'' of None \<Rightarrow> True | Some sel \<Rightarrow> isl (select api soup sel))
   \<and> (selectors ''container'' = Some container_sel
        \<and> select api soup container_sel = Inr (before @ c # after)
        \<and> k \<in> {''name'', ''price'', ''rating''}
        \<and> selectors k = Some s
        \<and> select_one api c s = Inl e
      \<longrightarrow> (\<exists>e'. extract_product api c selectors = Inl e'
             \<and> fst (parse_products api self soup selectors) =
                 Inr (extracted api selectors before @ extracted api selectors after)
             \<and> (WARNING, ErrorExtracting (length before + 1) e')
                 \<in> set (snd (snd (parse_products api self soup selectors)))))"
proof (intro conjI impI)
  show "isl (fst (parse_products api self soup selectors)) =
     (case selectors ''container'' of None \<Rightarrow> True | Some sel \<Rightarrow> isl (select api soup sel))"
    by (rule parse_products_raises)
next
  assume h: "selectors ''container'' = Some container_sel
        \<and> select api soup container_sel = Inr (before @ c # after)
        \<and> k \<in> {''name'', ''price'', ''rating''}
        \<and> selectors k = Some s
        \<and> select_one api c s = Inl e"
  show "\<exists>e'. extract_product api c selectors = Inl e'
             \<and> fst (parse_products api self soup selectors) =
                 Inr (extracted api selectors before @ extracted api selectors after)
             \<and> (WARNING, ErrorExtracting (length before + 1) e')
                 \<in> set (snd (snd (parse_products api self soup selectors)))"
    by (rule field_error_skips [where selectors = selectors and api = api and k = k and s = s
          and e = e and container_sel = container_sel]) (use h in simp_all)
qed

theorem field_error_skips_container_witness:
  "select_one by_tag velvet [] = Inl (QueryError [])
   \<and> extract_product by_tag velvet rating_broken = Inl (QueryError [])
   \<and> \<not> isl (fst (parse_products by_tag new_scraper page rating_broken))
   \<and> fst (parse_products by_tag new_scraper page rating_broken) = Inr []
   \<and> (WARNING, ErrorExtracting 3 (QueryError []))
       \<in> set (snd (snd (parse_products by_tag new_scraper page rating_broken)))"
proof -
  have sel: "select by_tag page ''article'' = Inr ([attic, untitled] @ velvet # [])"
    by (simp add: select_page)
  have k: "''rating'' \<in> {''name'', ''price'', ''rating''}"
    by simp
  have raised: "select_one by_tag velvet [] = Inl (QueryError [])"
    by (simp add: by_tag_def)
  show ?thesis
    using field_error_skips_container [where selectors = rating_broken and api = by_tag
        and soup = page and self = new_scraper and container_sel = "''article''"
        and before = "[attic, untitled]" and c = velvet and after = "[]"
        and k = "''rating''" and s = "[]" and e = "QueryError []"]
      container_selector_rb sel k rating_selector_rb raised
    by (auto simp: extract_rb extracted_def eval_nat_numeral)
qed

text \<open>
  Against claim C10 as stated. A run on the sample page changes the instance: its
  field \<open>products\<close>, empty before, holds the three records afterwards.
\<close>

theorem parse_products_assigns_counterexample:
  "fst (snd (parse_products by_tag new_scraper page book_selectors)) =
     new_scraper\<lparr>products := [attic_record, untitled_record, velvet_record]\<rparr>
   \<and> fst (snd (parse_products by_tag new_scraper page book_selectors)) \<noteq> new_scraper"
proof -
  have res: "fst (parse_products by_tag new_scraper page book_selectors) =
     Inr [attic_record, untitled_record, velvet_record]"
    using parse_products_result [where selectors = book_selectors and api = by_tag
        and soup = page and self = new_scraper, OF container_selector select_page]
    by (simp add: extracted_def extract_attic extract_untitled extract_velvet)
  have after: "fst (snd (parse_products by_tag new_scraper page book_selectors)) =
     new_scraper\<lparr>products := [attic_record, untitled_record, velvet_record]\<rparr>"
    by (simp add: parse_products_self res)
  have "products (new_scraper\<lparr>products := [attic_record, untitled_record, velvet_record]\<rparr>)
        \<noteq> products new_scraper"
    by (simp add: new_scraper_def)
  then have "new_scraper\<lparr>products := [attic_record, untitled_record, velvet_record]\<rparr>
        \<noteq> new_scraper"
    by metis
  with after show ?thesis by simp
qed

text \<open>
  Claim C10, amended. Besides logging, \<open>parse_products\<close> has one effect on the
  instance: on a normal return its field \<open>products\<close> holds the returned records, which
  \<open>get_products\<close> then reads. The fields \<open>url\<close>, \<open>timeout\<close> and the session headers
  are never changed, and when \<open>parse_products\<close> raises the instance is left as it was.
\<close>

theorem parse_products_frame:
  "fst (snd (parse_products api self soup selectors)) =
     (case fst (parse_products api self soup selectors) of
        Inr prods \<Rightarrow> self\<lparr>products := prods\<rparr>
      | Inl e \<Rightarrow> self)
   \<and> url (fst (snd (parse_products api self soup selectors))) = url self
   \<and> timeout (fst (snd (parse_products api self soup selectors))) = timeout self
   \<and> headers (fst (snd (parse_products api self soup selectors))) = headers self
   \<and> get_products (fst (snd (parse_products api self soup selectors))) =
       (case fst (parse_products api self soup selectors) of
          Inr prods \<Rightarrow> prods
        | Inl e \<Rightarrow> products self)"
  by (simp add: parse_products_self get_products_def split: sum.splits)

theorem parse_products_frame_witness:
  "url (fst (snd (parse_products by_tag new_scraper page book_selectors))) =
     ''https://books.toscrape.com/''
   \<and> get_products (fst (snd (parse_products by_tag new_scraper page book_selectors))) =
       [attic_record, untitled_record, velvet_record]
   \<and> fst (snd (parse_products by_tag new_scraper page rating_broken)) =
       new_scraper\<lparr>products := []\<rparr>
   \<and> fst (snd (parse_products by_tag new_scraper page (book_selectors(''container'' := None)))) =
       new_scraper"
proof -
  have res: "fst (parse_products by_tag new_scraper page book_selectors) =
     Inr [attic_record, untitled_record, velvet_record]"
    using parse_products_result [where selectors = book_selectors and api = by_tag
        and soup = page and self = new_scraper, OF container_selector select_page]
    by (simp add: extracted_def extract_attic extract_untitled extract_velvet)
  have res_rb: "fst (parse_products by_tag new_scraper page rating_broken) = Inr []"
    using parse_products_result [where selectors = rating_broken and api = by_tag
        and soup = page and self = new_scraper, OF container_selector_rb select_page]
    by (simp add: extracted_def extract_rb)
  have res_none:
    "fst (parse_products by_tag new_scraper page (book_selectors(''container'' := None))) =
       Inl (KeyError ''container'')"
    by (simp add: parse_products_def getitem_def)
  have address: "url new_scraper = ''https://books.toscrape.com/''"
    by (simp add: new_scraper_def)
  show ?thesis
    using parse_products_frame [of by_tag new_scraper page book_selectors]
      parse_products_frame [of by_tag new_scraper page rating_broken]
      parse_products_frame [of by_tag new_scraper page "book_selectors(''container'' := None)"]
    by (simp add: res res_rb res_none address get_products_def)
qed

section \<open>Properties of the exporter\<close>

lemma DataFrame_Nil: "DataFrame [] = \<lparr>columns = [], rows = []\<rparr>"
  by (simp add: DataFrame_def)

lemma export_Nil:
  assumes "writable fs path" and "path \<noteq> []"
  shows "export timestamp linesep fs [] (Some path) =
           (Inr path, fs\<lparr>files := (files fs)(path \<mapsto> linesep)\<rparr>,
            [(INFO, DataExported path), (INFO, TotalExported 0)])"
  using assms
  by (simp add: export_def Let_def DataFrame_Nil take_columns_def to_csv_def writerow_def
      write_file_def)

lemma needs_quoting_linesep:
  "set linesep \<subseteq> {0x0D, 0x0A} \<Longrightarrow>
   needs_quoting linesep c = (c = of_char CHR '','' \<or> c = 0x22 \<or> c = 0x0D \<or> c = 0x0A)"
  by (auto simp: needs_quoting_def)

lemma key_in_columns: "map_of p k = Some v \<Longrightarrow> k \<in> set (columns (DataFrame [p]))"
  by (auto simp: DataFrame_def dest!: map_of_SomeD intro: rev_image_eqI)

lemma disk_writable: "writable disk ''out.csv''"
  by (simp add: disk_def)

section \<open>Claims about the exporter\<close>

text \<open>
  Against claim C7 as stated. Exporting the empty sequence to \<open>out.csv\<close> succeeds, and the
  file holds one empty line: the column names come from the records, so with no record
  the header row has no field, and the line \<open>name,price,rating\<close> is not written.
\<close>

theorem export_empty_counterexample:
  "fst (export ''20261104_120000'' [0x0A] disk [] (Some ''out.csv'')) = Inr ''out.csv''
   \<and> files (fst (snd (export ''20261104_120000'' [0x0A] disk [] (Some ''out.csv''))))
        ''out.csv'' = Some [0x0A]
   \<and> files (fst (snd (export ''20261104_120000'' [0x0A] disk [] (Some ''out.csv''))))
        ''out.csv'' \<noteq> Some (lit ''name,price,rating'' @ [0x0A])"
  by (simp add: export_Nil disk_def lit_def)

text \<open>
  Claim C7, amended. Exporting an empty sequence of records to a writable path
  succeeds, returns the path and logs the export of zero products; the file it
  writes has a header row without any column name, that is the bare line terminator,
  and no data row.
\<close>

theorem export_empty:
  assumes "writable fs path" and "path \<noteq> []"
  shows "fst (export timestamp linesep fs [] (Some path)) = Inr path
         \<and> files (fst (snd (export timestamp linesep fs [] (Some path)))) path = Some linesep
         \<and> snd (snd (export timestamp linesep fs [] (Some path))) =
             [(INFO, DataExported path), (INFO, TotalExported 0)]"
  by (simp add: export_Nil [OF assms])

theorem export_empty_witness:
  "writable disk ''out.csv''
   \<and> fst (export ''20261104_120000'' [0x0D, 0x0A] disk [] (Some ''out.csv'')) =
       Inr ''out.csv''
   \<and> files (fst (snd (export ''20261104_120000'' [0x0D, 0x0A] disk []
              (Some ''out.csv'')))) ''out.csv'' = Some [0x0D, 0x0A]"
proof -
  have n: "''out.csv'' \<noteq> []" by simp
  show ?thesis
    using export_empty [OF disk_writable n, of "''20261104_120000''" "[0x0D, 0x0A]"]
      disk_writable
    by simp
qed

text \<open>
  Claim C8. Exporting the single record with name \<open>A Light in the Attic\<close>, price
  \<open>51.77\<close> and rating \<open>Three\<close> to \<open>out.csv\<close> writes exactly two lines, the header
  \<open>name,price,rating\<close> and the row \<open>A Light in the Attic,51.77,Three\<close>: the columns are
  in the order name, price, rating whatever the order of the keys in the record, and
  any other key of the record is dropped.
\<close>

theorem export_single_record:
  assumes "writable fs ''out.csv''"
    and "set linesep \<subseteq> {0x0D, 0x0A}"
    and "map_of p ''name'' = Some (lit ''A Light in the Attic'')"
    and "map_of p ''price'' = Some (lit ''51.77'')"
    and "map_of p ''rating'' = Some (lit ''Three'')"
  shows "fst (export timestamp linesep fs [p] (Some ''out.csv'')) = Inr ''out.csv''
         \<and> files (fst (snd (export timestamp linesep fs [p] (Some ''out.csv'')))) ''out.csv'' =
             Some (lit ''name,price,rating'' @ linesep
                   @ lit ''A Light in the Attic,51.77,Three'' @ linesep)"
proof -
  let ?df = "DataFrame [p]"
  have cols:
    "''name'' \<in> set (columns ?df)" "''price'' \<in> set (columns ?df)"
    "''rating'' \<in> set (columns ?df)"
    using assms(3,4,5) by (simp_all add: key_in_columns)
  have rows: "rows ?df = [map_of p]"
    by (simp add: DataFrame_def)
  have plain:
    "csv_field linesep (lit ''name'') = lit ''name''"
    "csv_field linesep (lit ''price'') = lit ''price''"
    "csv_field linesep (lit ''rating'') = lit ''rating''"
    "csv_field linesep (lit ''A Light in the Attic'') = lit ''A Light in the Attic''"
    "csv_field linesep (lit ''51.77'') = lit ''51.77''"
    "csv_field linesep (lit ''Three'') = lit ''Three''"
    by (simp_all add: csv_field_def lit_def needs_quoting_linesep [OF assms(2)])
  have written: "to_csv linesep (take_columns ?df [''name'', ''price'', ''rating'']) =
      lit ''name,price,rating'' @ linesep @ lit ''A Light in the Attic,51.77,Three'' @ linesep"
  proof -
    have "to_csv linesep (take_columns ?df [''name'', ''price'', ''rating'']) =
        (lit ''name'' @ lit '','' @ lit ''price'' @ lit '','' @ lit ''rating'') @ linesep
        @ (lit ''A Light in the Attic'' @ lit '','' @ lit ''51.77'' @ lit '','' @ lit ''Three'')
        @ linesep"
      using assms(3,4,5) by (simp add: to_csv_def take_columns_def rows writerow_def plain)
    then show ?thesis by (simp add: lit_def)
  qed
  show ?thesis
    using assms(1) by (simp add: export_def Let_def cols written write_file_def)
qed

theorem export_single_record_witness:
  "writable disk ''out.csv''
   \<and> fst (export ''20261104_120000'' [0x0A] disk [attic_record] (Some ''out.csv'')) =
       Inr ''out.csv''
   \<and> files (fst (snd (export ''20261104_120000'' [0x0A] disk [attic_record]
              (Some ''out.csv'')))) ''out.csv'' =
       Some (lit ''name,price,rating'' @ [0x0A]
             @ lit ''A Light in the Attic,51.77,Three'' @ [0x0A])"
proof -
  have l: "set [0x0A] \<subseteq> {0x0D, 0x0A :: nat}" by simp
  have n: "map_of attic_record ''name'' = Some (lit ''A Light in the Attic'')"
    and p: "map_of attic_record ''price'' = Some (lit ''51.77'')"
    and r: "map_of attic_record ''rating'' = Some (lit ''Three'')"
    by (simp_all add: attic_record_def)
  show ?thesis
    using export_single_record [OF disk_writable l n p r, of "''20261104_120000''"]
      disk_writable
    by simp
qed

end
